theory Spec2Isabelle
  imports Complex_Main
begin

section \<open>Python values\<close>

text \<open>
  The constructor \<open>SMPPClientConfig(**kwargs)\<close> receives a dictionary from keyword names to
  arbitrary Python objects. The embedding keeps the kinds of object the constructor
  distinguishes: \<open>None\<close>, booleans, (unbounded) integers, floats, text, tuples (the
  \<open>%\<close> operator treats a tuple operand as an argument list) and every other object.

  A float is kept as its exact value, when it is finite, together with the text \<open>str()\<close>
  yields for it; a tuple and any other object carry the text \<open>str()\<close> yields as well, since
  that text is decided by the Python runtime and by the object's class, not by this module.
  An object of another class also carries what \<open>==\<close> answers between it and an integer:
  a number of another class (\<open>complex\<close>, \<open>Fraction\<close>, \<open>Decimal\<close>) equals the integers of its
  value. Such an object differs from \<open>None\<close> and from every text, as the objects of the
  standard library do.
  Text is the type \<open>str\<close> of the source, and integers are unbounded.
\<close>

datatype float_value = Finite rat | NonFinite

datatype pyval =
    PNone
  | PBool bool
  | PInt int
  | PFloat float_value string
  | PStr string
  | PTuple "pyval list" string
  | PObj string "int \<Rightarrow> bool"

text \<open>The exceptions of the module, and the built-in \<open>TypeError\<close> that \<open>%\<close> raises.\<close>

datatype error =
    ConfigUndefinedIdError string
  | ConfigInvalidIdError string
  | TypeMismatch string
  | UnknownValue string
  | TypeError string

text \<open>\<open>isinstance(v, str)\<close>, \<open>isinstance(v, int)\<close> (\<open>bool\<close> is a subclass of \<open>int\<close>) and
  \<open>isinstance(v, float)\<close>.\<close>

fun isinstance_str :: "pyval \<Rightarrow> bool" where
  "isinstance_str (PStr s) = True"
| "isinstance_str v = False"

fun isinstance_int :: "pyval \<Rightarrow> bool" where
  "isinstance_int (PInt n) = True"
| "isinstance_int (PBool b) = True"
| "isinstance_int v = False"

fun isinstance_float :: "pyval \<Rightarrow> bool" where
  "isinstance_float (PFloat x t) = True"
| "isinstance_float v = False"

text \<open>\<open>v == None\<close>, \<open>v == 'text'\<close> and \<open>v == n\<close> for an integer literal \<open>n\<close>: numbers compare by
  value across \<open>bool\<close>, \<open>int\<close> and \<open>float\<close>, and an object of another class answers for
  itself.\<close>

fun py_eq_None :: "pyval \<Rightarrow> bool" where
  "py_eq_None PNone = True"
| "py_eq_None v = False"

fun py_eq_str :: "pyval \<Rightarrow> string \<Rightarrow> bool" where
  "py_eq_str (PStr s) t = (s = t)"
| "py_eq_str v t = False"

fun py_eq_int :: "pyval \<Rightarrow> int \<Rightarrow> bool" where
  "py_eq_int (PInt m) n = (m = n)"
| "py_eq_int (PBool b) n = ((if b then 1 else 0) = n)"
| "py_eq_int (PFloat (Finite q) t) n = (q = of_int n)"
| "py_eq_int (PObj t e) n = e n"
| "py_eq_int v n = False"

text \<open>\<open>v in [...]\<close> for a list of text literals and for a list of integer literals.\<close>

definition py_in_strs :: "pyval \<Rightarrow> string list \<Rightarrow> bool" where
  "py_in_strs v xs = list_ex (py_eq_str v) xs"

definition py_in_ints :: "pyval \<Rightarrow> int list \<Rightarrow> bool" where
  "py_in_ints v ns = list_ex (py_eq_int v) ns"

text \<open>\<open>str(v)\<close>: decimal digits for an integer, the text itself for text.\<close>

fun str_nat :: "nat \<Rightarrow> string" where
  "str_nat n = (if n < 10 then [''0123456789'' ! n]
                else str_nat (n div 10) @ [''0123456789'' ! (n mod 10)])"

declare str_nat.simps [simp del]

definition str_int :: "int \<Rightarrow> string" where
  "str_int i = (if i < 0 then ''-'' @ str_nat (nat (- i)) else str_nat (nat i))"

fun py_str :: "pyval \<Rightarrow> string" where
  "py_str PNone = ''None''"
| "py_str (PBool b) = (if b then ''True'' else ''False'')"
| "py_str (PInt n) = str_int n"
| "py_str (PFloat x t) = t"
| "py_str (PStr s) = s"
| "py_str (PTuple vs t) = t"
| "py_str (PObj t e) = t"

text \<open>\<open>'prefix%ssuffix' % v\<close>: a tuple operand is the argument list, so it must hold exactly
  one value; any other operand is the single argument.\<close>

fun py_format_s :: "string \<Rightarrow> string \<Rightarrow> pyval \<Rightarrow> error + string" where
  "py_format_s pre suf (PTuple [] t) =
     Inl (TypeError ''not enough arguments for format string'')"
| "py_format_s pre suf (PTuple [x] t) = Inr (pre @ py_str x @ suf)"
| "py_format_s pre suf (PTuple (x # y # zs) t) =
     Inl (TypeError ''not all arguments converted during string formatting'')"
| "py_format_s pre suf v = Inr (pre @ py_str v @ suf)"

text \<open>\<open>kwargs.get(key, default)\<close>.\<close>

definition kwargs_get :: "(string \<rightharpoonup> pyval) \<Rightarrow> string \<Rightarrow> pyval \<Rightarrow> pyval" where
  "kwargs_get kwargs k d = (case kwargs k of None \<Rightarrow> d | Some v \<Rightarrow> v)"

section \<open>The identifier pattern\<close>

text \<open>\<open>re.compile(r'^[A-Za-z0-9_-]{3,25}$').match(s)\<close>: between 3 and 25 characters of the
  class, up to the end of the text; \<open>$\<close> also matches just before a newline that ends the
  text.\<close>

definition idchar :: "char \<Rightarrow> bool" where
  "idchar c = (c \<in> set (''ABCDEFGHIJKLMNOPQRSTUVWXYZ'' @ ''abcdefghijklmnopqrstuvwxyz''
                          @ ''0123456789'' @ ''_-''))"

definition idbody :: "string \<Rightarrow> bool" where
  "idbody s = (3 \<le> length s \<and> length s \<le> 25 \<and> list_all idchar s)"

definition idcheck_match :: "string \<Rightarrow> bool" where
  "idcheck_match s = (idbody s \<or> (s \<noteq> [] \<and> last s = CHR 0x0A \<and> idbody (butlast s)))"

section \<open>The key translation table\<close>

text \<open>\<open>SMPPClientConfigMap\<close>, the dictionary literal in source order, and the lookup
  \<open>SMPPClientConfigMap.get(key)\<close> that translates a user-configuration key.\<close>

definition SMPPClientConfigMap :: "(string \<times> string) list" where
  "SMPPClientConfigMap =
    [(''cid'', ''id''), (''host'', ''host''), (''port'', ''port''), (''username'', ''username''),
     (''password'', ''password''), (''systype'', ''systemType''), (''logfile'', ''log_file''),
     (''loglevel'', ''log_level''),
     (''bind_to'', ''sessionInitTimerSecs''), (''elink_interval'', ''enquireLinkTimerSecs''),
     (''trx_to'', ''inactivityTimerSecs''),
     (''res_to'', ''responseTimerSecs''), (''con_loss_retry'', ''reconnectOnConnectionLoss''),
     (''con_fail_retry'', ''reconnectOnConnectionFailure''),
     (''con_loss_delay'', ''reconnectOnConnectionLossDelay''),
     (''con_fail_delay'', ''reconnectOnConnectionFailureDelay''),
     (''pdu_red_to'', ''pduReadTimerSecs''), (''bind'', ''bindOperation''),
     (''bind_ton'', ''bind_addr_ton''), (''bind_npi'', ''bind_addr_npi''),
     (''src_ton'', ''source_addr_ton''), (''src_npi'', ''source_addr_npi''),
     (''dst_ton'', ''dest_addr_ton''), (''dst_npi'', ''dest_addr_npi''),
     (''addr_range'', ''address_range''), (''src_addr'', ''source_addr''),
     (''esm_class'', ''esm_class''), (''proto_id'', ''protocol_id''),
     (''priority'', ''priority_flag''), (''validity'', ''validity_period''),
     (''dlr'', ''registered_delivery''), (''ripf'', ''replace_if_present_flag''),
     (''def_msg_id'', ''sm_default_msg_id''), (''coding'', ''data_coding''),
     (''requeue_delay'', ''requeue_delay''), (''submit_throughput'', ''submit_sm_throughput''),
     (''dlr_expiry'', ''dlr_expiry'')]"

definition translate :: "string \<Rightarrow> string option" where
  "translate k = map_of SMPPClientConfigMap k"

section \<open>The service configuration\<close>

text \<open>Modelled from the spec: \<open>ConfigFile._get(section, option, default)\<close> of
  \<open>jasmin.config.tools\<close> is not part of this module; the spec describes a section/key store
  read with per-key defaults. The store maps a section name to its options.\<close>

type_synonym config_store = "string \<rightharpoonup> (string \<rightharpoonup> string)"

definition ConfigFile_get :: "config_store \<Rightarrow> string \<Rightarrow> string \<Rightarrow> string \<Rightarrow> string" where
  "ConfigFile_get store section opt dflt =
     (case store section of
        None \<Rightarrow> dflt
      | Some opts \<Rightarrow> (case opts opt of None \<Rightarrow> dflt | Some v \<Rightarrow> v))"

text \<open>Modelled from the spec: \<open>logging.getLevelName\<close> of the Python standard library, which
  the spec describes as parsing a human-readable level name into a numeric severity. A
  registered name yields its number (\<open>logging.INFO\<close> is 20); any other text yields the text
  \<open>'Level ' + name\<close>. The registered names are those of the library's table.\<close>

definition logging_INFO :: int where
  "logging_INFO = 20"

definition levelNames :: "(string \<times> int) list" where
  "levelNames = [(''CRITICAL'', 50), (''FATAL'', 50), (''ERROR'', 40), (''WARN'', 30),
                 (''WARNING'', 30), (''INFO'', logging_INFO), (''DEBUG'', 10), (''NOTSET'', 0)]"

definition getLevelName :: "string \<Rightarrow> pyval" where
  "getLevelName level =
     (case map_of levelNames level of
        Some n \<Rightarrow> PInt n
      | None \<Rightarrow> PStr (''Level '' @ level))"

record SMPPClientServiceConfig =
  log_level :: pyval
  log_file :: string
  log_format :: string
  log_date_format :: string

definition SMPPClientServiceConfig_init :: "config_store \<Rightarrow> SMPPClientServiceConfig" where
  "SMPPClientServiceConfig_init store =
     \<lparr> log_level = getLevelName (ConfigFile_get store ''service-smppclient'' ''log_level'' ''INFO''),
       log_file = ConfigFile_get store ''services-smppclient'' ''log_file''
                    ''/var/log/jasmin/service-smppclient.log'',
       log_format = ConfigFile_get store ''services-smppclient'' ''log_format''
                      ''%(asctime)s %(levelname)-8s %(process)d %(message)s'',
       log_date_format = ConfigFile_get store ''services-smppclient'' ''log_date_format''
                           ''%Y-%m-%d %H:%M:%S'' \<rparr>"

section \<open>The client configuration\<close>

text \<open>The names imported from \<open>jasmin.vendor.smpp.pdu.pdu_types\<close> are not defined in this
  module: the constructor takes them as a parameter.\<close>

record pdu_types =
  EsmClass :: "pyval \<Rightarrow> pyval \<Rightarrow> pyval"
  EsmClassMode_STORE_AND_FORWARD :: pyval
  EsmClassType_DEFAULT :: pyval
  RegisteredDelivery :: "pyval \<Rightarrow> pyval"
  RegisteredDeliveryReceipt_NO_SMSC_DELIVERY_RECEIPT_REQUESTED :: pyval
  AddrTon_UNKNOWN :: pyval
  AddrTon_NATIONAL :: pyval
  AddrTon_INTERNATIONAL :: pyval
  AddrNpi_ISDN :: pyval
  PriorityFlag_LEVEL_0 :: pyval
  ReplaceIfPresentFlag_DO_NOT_REPLACE :: pyval

text \<open>The attributes of a constructed \<open>SMPPClientConfig\<close>, in the order the constructor
  assigns them. The attribute \<open>id\<close> is named \<open>id_text\<close> here (\<open>id\<close> is the identity function
  of HOL); it always holds text.\<close>

record SMPPClientConfig =
  id_text :: string
  host :: pyval
  port :: pyval
  username :: pyval
  password :: pyval
  systemType :: pyval
  log_file :: pyval
  log_level :: pyval
  log_format :: pyval
  log_date_format :: pyval
  sessionInitTimerSecs :: pyval
  enquireLinkTimerSecs :: pyval
  inactivityTimerSecs :: pyval
  responseTimerSecs :: pyval
  reconnectOnConnectionLoss :: pyval
  reconnectOnConnectionFailure :: pyval
  reconnectOnConnectionLossDelay :: pyval
  reconnectOnConnectionFailureDelay :: pyval
  pduReadTimerSecs :: pyval
  useSSL :: pyval
  SSLCertificateFile :: pyval
  bindOperation :: pyval
  service_type :: pyval
  bind_addr_ton :: pyval
  bind_addr_npi :: pyval
  source_addr_ton :: pyval
  source_addr_npi :: pyval
  dest_addr_ton :: pyval
  dest_addr_npi :: pyval
  address_range :: pyval
  source_addr :: pyval
  esm_class :: pyval
  protocol_id :: pyval
  priority_flag :: pyval
  schedule_delivery_time :: pyval
  validity_period :: pyval
  registered_delivery :: pyval
  replace_if_present_flag :: pyval
  sm_default_msg_id :: pyval
  data_coding :: pyval
  addressTon :: pyval
  addressNpi :: pyval
  addressRange :: pyval
  requeue_delay :: pyval
  submit_sm_throughput :: pyval
  dlr_expiry :: pyval

text \<open>The type test of every timer and delay: the source raises when
  \<open>not isinstance(v, int) and not isinstance(v, float)\<close>.\<close>

definition not_int_nor_float :: "pyval \<Rightarrow> bool" where
  "not_int_nor_float v = (\<not> isinstance_int v \<and> \<not> isinstance_float v)"

text \<open>\<open>SMPPClientConfig.__init__\<close>: each statement of the source in order; a \<open>raise\<close> ends
  the construction with \<open>Inl\<close>, and the message of \<open>UnknownValue\<close> is formatted with \<open>%\<close>
  before the exception is raised. The default log file applies \<open>%\<close> to \<open>self.id\<close>, which is
  text, so the identifier is substituted.\<close>

definition SMPPClientConfig_init ::
    "pdu_types \<Rightarrow> (string \<rightharpoonup> pyval) \<Rightarrow> error + SMPPClientConfig" where
  "SMPPClientConfig_init pdu kwargs =
    (if py_eq_None (kwargs_get kwargs ''id'' PNone) then
       Inl (ConfigUndefinedIdError ''SMPPClientConfig must have an id'')
     else if \<not> idcheck_match (py_str (kwargs_get kwargs ''id'' PNone)) then
       Inl (ConfigInvalidIdError ''SMPPClientConfig id syntax is invalid'')
     else
     let self_id = py_str (kwargs_get kwargs ''id'' PNone);
         self_host = kwargs_get kwargs ''host'' (PStr ''127.0.0.1'') in
     if \<not> isinstance_str self_host then Inl (TypeMismatch ''host must be a string'') else
     let self_port = kwargs_get kwargs ''port'' (PInt 2775) in
     if \<not> isinstance_int self_port then Inl (TypeMismatch ''port must be an integer'') else
     let self_username = kwargs_get kwargs ''username'' (PStr ''smppclient'');
         self_password = kwargs_get kwargs ''password'' (PStr ''password'');
         self_systemType = kwargs_get kwargs ''systemType'' (PStr []);
         self_log_file = kwargs_get kwargs ''log_file''
                           (PStr (''/var/log/jasmin/default-'' @ self_id @ ''.log''));
         self_log_level = kwargs_get kwargs ''log_level'' (PInt logging_INFO);
         self_log_format = kwargs_get kwargs ''log_format''
                             (PStr ''%(asctime)s %(levelname)-8s %(process)d %(message)s'');
         self_log_date_format = kwargs_get kwargs ''log_dateformat'' (PStr ''%Y-%m-%d %H:%M:%S'');
         self_sessionInitTimerSecs = kwargs_get kwargs ''sessionInitTimerSecs'' (PInt 30) in
     if not_int_nor_float self_sessionInitTimerSecs
     then Inl (TypeMismatch ''sessionInitTimerSecs must be an integer or float'') else
     let self_enquireLinkTimerSecs = kwargs_get kwargs ''enquireLinkTimerSecs'' (PInt 10) in
     if not_int_nor_float self_enquireLinkTimerSecs
     then Inl (TypeMismatch ''enquireLinkTimerSecs must be an integer or float'') else
     let self_inactivityTimerSecs = kwargs_get kwargs ''inactivityTimerSecs'' (PInt 300) in
     if not_int_nor_float self_inactivityTimerSecs
     then Inl (TypeMismatch ''inactivityTimerSecs must be an integer or float'') else
     let self_responseTimerSecs = kwargs_get kwargs ''responseTimerSecs'' (PInt 60) in
     if not_int_nor_float self_responseTimerSecs
     then Inl (TypeMismatch ''responseTimerSecs must be an integer or float'') else
     let self_reconnectOnConnectionLoss =
           kwargs_get kwargs ''reconnectOnConnectionLoss'' (PBool True);
         self_reconnectOnConnectionFailure =
           kwargs_get kwargs ''reconnectOnConnectionFailure'' (PBool True);
         self_reconnectOnConnectionLossDelay =
           kwargs_get kwargs ''reconnectOnConnectionLossDelay'' (PInt 10) in
     if not_int_nor_float self_reconnectOnConnectionLossDelay
     then Inl (TypeMismatch ''reconnectOnConnectionLossDelay must be an integer or float'') else
     let self_reconnectOnConnectionFailureDelay =
           kwargs_get kwargs ''reconnectOnConnectionFailureDelay'' (PInt 10) in
     if not_int_nor_float self_reconnectOnConnectionFailureDelay
     then Inl (TypeMismatch ''reconnectOnConnectionFailureDelay must be an integer or float'') else
     let self_pduReadTimerSecs = kwargs_get kwargs ''pduReadTimerSecs'' (PInt 10) in
     if not_int_nor_float self_pduReadTimerSecs
     then Inl (TypeMismatch ''pduReadTimerSecs must be an integer or float'') else
     let self_useSSL = kwargs_get kwargs ''useSSL'' (PBool False);
         self_SSLCertificateFile = kwargs_get kwargs ''SSLCertificateFile'' PNone;
         self_bindOperation = kwargs_get kwargs ''bindOperation'' (PStr ''transceiver'') in
     if \<not> py_in_strs self_bindOperation [''transceiver'', ''transmitter'', ''receiver''] then
       (case py_format_s ''Invalid bindOperation: '' [] self_bindOperation of
          Inl e \<Rightarrow> Inl e
        | Inr msg \<Rightarrow> Inl (UnknownValue msg))
     else
     let self_service_type = kwargs_get kwargs ''service_type'' PNone;
         self_bind_addr_ton = kwargs_get kwargs ''bind_addr_ton'' (AddrTon_UNKNOWN pdu);
         self_bind_addr_npi = kwargs_get kwargs ''bind_addr_npi'' (AddrNpi_ISDN pdu);
         self_source_addr_ton = kwargs_get kwargs ''source_addr_ton'' (AddrTon_NATIONAL pdu);
         self_source_addr_npi = kwargs_get kwargs ''source_addr_npi'' (AddrNpi_ISDN pdu);
         self_dest_addr_ton = kwargs_get kwargs ''dest_addr_ton'' (AddrTon_INTERNATIONAL pdu);
         self_dest_addr_npi = kwargs_get kwargs ''dest_addr_npi'' (AddrNpi_ISDN pdu);
         self_address_range = kwargs_get kwargs ''address_range'' PNone;
         self_source_addr = kwargs_get kwargs ''source_addr'' PNone;
         self_esm_class = kwargs_get kwargs ''esm_class''
           (EsmClass pdu (EsmClassMode_STORE_AND_FORWARD pdu) (EsmClassType_DEFAULT pdu));
         self_protocol_id = kwargs_get kwargs ''protocol_id'' PNone;
         self_priority_flag = kwargs_get kwargs ''priority_flag'' (PriorityFlag_LEVEL_0 pdu);
         self_schedule_delivery_time = kwargs_get kwargs ''schedule_delivery_time'' PNone;
         self_validity_period = kwargs_get kwargs ''validity_period'' PNone;
         self_registered_delivery = kwargs_get kwargs ''registered_delivery''
           (RegisteredDelivery pdu
              (RegisteredDeliveryReceipt_NO_SMSC_DELIVERY_RECEIPT_REQUESTED pdu));
         self_replace_if_present_flag = kwargs_get kwargs ''replace_if_present_flag''
           (ReplaceIfPresentFlag_DO_NOT_REPLACE pdu);
         self_sm_default_msg_id = kwargs_get kwargs ''sm_default_msg_id'' (PInt 0);
         self_data_coding = kwargs_get kwargs ''data_coding'' (PInt 0) in
     if \<not> py_in_ints self_data_coding [0, 1, 2, 3, 4, 5, 6, 7, 8, 9, 10, 13, 14] then
       (case py_format_s ''Invalid data_coding: '' [] self_data_coding of
          Inl e \<Rightarrow> Inl e
        | Inr msg \<Rightarrow> Inl (UnknownValue msg))
     else
     let self_addressTon = self_bind_addr_ton;
         self_addressNpi = self_bind_addr_npi;
         self_addressRange = self_address_range;
         self_requeue_delay = kwargs_get kwargs ''requeue_delay'' (PInt 120) in
     if not_int_nor_float self_requeue_delay
     then Inl (TypeMismatch ''requeue_delay must be an integer or float'') else
     let self_submit_sm_throughput = kwargs_get kwargs ''submit_sm_throughput'' (PInt 1) in
     if not_int_nor_float self_submit_sm_throughput
     then Inl (TypeMismatch ''submit_sm_throughput must be an integer or float'') else
     let self_dlr_expiry = kwargs_get kwargs ''dlr_expiry'' (PInt 86400) in
     if not_int_nor_float self_dlr_expiry
     then Inl (TypeMismatch ''dlr_expiry must be an integer or float'') else
     Inr \<lparr> id_text = self_id,
           host = self_host,
           port = self_port,
           username = self_username,
           password = self_password,
           systemType = self_systemType,
           log_file = self_log_file,
           log_level = self_log_level,
           log_format = self_log_format,
           log_date_format = self_log_date_format,
           sessionInitTimerSecs = self_sessionInitTimerSecs,
           enquireLinkTimerSecs = self_enquireLinkTimerSecs,
           inactivityTimerSecs = self_inactivityTimerSecs,
           responseTimerSecs = self_responseTimerSecs,
           reconnectOnConnectionLoss = self_reconnectOnConnectionLoss,
           reconnectOnConnectionFailure = self_reconnectOnConnectionFailure,
           reconnectOnConnectionLossDelay = self_reconnectOnConnectionLossDelay,
           reconnectOnConnectionFailureDelay = self_reconnectOnConnectionFailureDelay,
           pduReadTimerSecs = self_pduReadTimerSecs,
           useSSL = self_useSSL,
           SSLCertificateFile = self_SSLCertificateFile,
           bindOperation = self_bindOperation,
           service_type = self_service_type,
           bind_addr_ton = self_bind_addr_ton,
           bind_addr_npi = self_bind_addr_npi,
           source_addr_ton = self_source_addr_ton,
           source_addr_npi = self_source_addr_npi,
           dest_addr_ton = self_dest_addr_ton,
           dest_addr_npi = self_dest_addr_npi,
           address_range = self_address_range,
           source_addr = self_source_addr,
           esm_class = self_esm_class,
           protocol_id = self_protocol_id,
           priority_flag = self_priority_flag,
           schedule_delivery_time = self_schedule_delivery_time,
           validity_period = self_validity_period,
           registered_delivery = self_registered_delivery,
           replace_if_present_flag = self_replace_if_present_flag,
           sm_default_msg_id = self_sm_default_msg_id,
           data_coding = self_data_coding,
           addressTon = self_addressTon,
           addressNpi = self_addressNpi,
           addressRange = self_addressRange,
           requeue_delay = self_requeue_delay,
           submit_sm_throughput = self_submit_sm_throughput,
           dlr_expiry = self_dlr_expiry \<rparr>)"

section \<open>The checks of the constructor, read on the input\<close>

text \<open>Every default of the constructor passes the check made on its field, so a check fails
  only on a supplied value: \<open>supplied_ok P kwargs k\<close> says that the keyword \<open>k\<close> is absent or
  bound to a value that satisfies \<open>P\<close>.\<close>

definition supplied_ok :: "(pyval \<Rightarrow> bool) \<Rightarrow> (string \<rightharpoonup> pyval) \<Rightarrow> string \<Rightarrow> bool" where
  "supplied_ok P kwargs k = (case kwargs k of None \<Rightarrow> True | Some v \<Rightarrow> P v)"

text \<open>The first two statements of the constructor let the input through: \<open>id\<close> is bound,
  not to \<open>None\<close>, and its text matches the pattern.\<close>

definition id_gate :: "(string \<rightharpoonup> pyval) \<Rightarrow> bool" where
  "id_gate kwargs =
     (case kwargs ''id'' of
        None \<Rightarrow> False
      | Some v \<Rightarrow> \<not> py_eq_None v \<and> idcheck_match (py_str v))"

definition int_or_float :: "pyval \<Rightarrow> bool" where
  "int_or_float v = (isinstance_int v \<or> isinstance_float v)"

text \<open>The fields checked with \<open>isinstance(v, int)\<close> or \<open>isinstance(v, float)\<close>, in the order
  of their checks: the first seven come before the check of \<open>bindOperation\<close>, the last three
  after the check of \<open>data_coding\<close>.\<close>

definition numeric_fields :: "string list" where
  "numeric_fields =
     [''sessionInitTimerSecs'', ''enquireLinkTimerSecs'', ''inactivityTimerSecs'',
      ''responseTimerSecs'', ''reconnectOnConnectionLossDelay'',
      ''reconnectOnConnectionFailureDelay'', ''pduReadTimerSecs'',
      ''requeue_delay'', ''submit_sm_throughput'', ''dlr_expiry'']"

definition bindOperation_values :: "string list" where
  "bindOperation_values = [''transceiver'', ''transmitter'', ''receiver'']"

definition data_coding_values :: "int list" where
  "data_coding_values = [0, 1, 2, 3, 4, 5, 6, 7, 8, 9, 10, 13, 14]"

definition bindOperation_ok :: "(string \<rightharpoonup> pyval) \<Rightarrow> bool" where
  "bindOperation_ok kwargs =
     supplied_ok (\<lambda>v. py_in_strs v bindOperation_values) kwargs ''bindOperation''"

definition data_coding_ok :: "(string \<rightharpoonup> pyval) \<Rightarrow> bool" where
  "data_coding_ok kwargs =
     supplied_ok (\<lambda>v. py_in_ints v data_coding_values) kwargs ''data_coding''"

text \<open>The type checks that come before the check of \<open>bindOperation\<close>.\<close>

definition type_gates_before_bind :: "(string \<rightharpoonup> pyval) \<Rightarrow> bool" where
  "type_gates_before_bind kwargs =
     (supplied_ok isinstance_str kwargs ''host'' \<and> supplied_ok isinstance_int kwargs ''port''
      \<and> list_all (supplied_ok int_or_float kwargs) (take 7 numeric_fields))"

fun is_tuple :: "pyval \<Rightarrow> bool" where
  "is_tuple (PTuple vs t) = True"
| "is_tuple v = False"

text \<open>An instance of the imported names, to run the constructor on concrete inputs: every
  enumeration member is an object of its own, and the two constructors build tuples of
  their arguments.\<close>

definition sample_pdu_types :: pdu_types where
  "sample_pdu_types =
     \<lparr> EsmClass = (\<lambda>m t. PTuple [m, t] ''EsmClass''),
       EsmClassMode_STORE_AND_FORWARD =
         PObj ''EsmClassMode.STORE_AND_FORWARD'' (\<lambda>n. False),
       EsmClassType_DEFAULT = PObj ''EsmClassType.DEFAULT'' (\<lambda>n. False),
       RegisteredDelivery = (\<lambda>r. PTuple [r] ''RegisteredDelivery''),
       RegisteredDeliveryReceipt_NO_SMSC_DELIVERY_RECEIPT_REQUESTED =
         PObj ''RegisteredDeliveryReceipt.NO_SMSC_DELIVERY_RECEIPT_REQUESTED''
           (\<lambda>n. False),
       AddrTon_UNKNOWN = PObj ''AddrTon.UNKNOWN'' (\<lambda>n. False),
       AddrTon_NATIONAL = PObj ''AddrTon.NATIONAL'' (\<lambda>n. False),
       AddrTon_INTERNATIONAL = PObj ''AddrTon.INTERNATIONAL'' (\<lambda>n. False),
       AddrNpi_ISDN = PObj ''AddrNpi.ISDN'' (\<lambda>n. False),
       PriorityFlag_LEVEL_0 = PObj ''PriorityFlag.LEVEL_0'' (\<lambda>n. False),
       ReplaceIfPresentFlag_DO_NOT_REPLACE =
         PObj ''ReplaceIfPresentFlag.DO_NOT_REPLACE'' (\<lambda>n. False) \<rparr>"

text \<open>The option stored under a section of the store, if any.\<close>

definition cell :: "config_store \<Rightarrow> string \<Rightarrow> string \<Rightarrow> string option" where
  "cell store section opt =
     (case store section of None \<Rightarrow> None | Some opts \<Rightarrow> opts opt)"

section \<open>Basic facts\<close>

lemma kwargs_get_Some: "kwargs k = Some v \<Longrightarrow> kwargs_get kwargs k d = v"
  by (simp add: kwargs_get_def)

lemma kwargs_get_None: "kwargs k = None \<Longrightarrow> kwargs_get kwargs k d = d"
  by (simp add: kwargs_get_def)

lemma py_eq_None_iff: "py_eq_None v \<longleftrightarrow> v = PNone"
  by (cases v) simp_all

lemma init_id_only:
  assumes "v \<noteq> PNone" and "idcheck_match (py_str v)"
  shows "\<exists>c. SMPPClientConfig_init pdu [''id'' \<mapsto> v] = Inr c \<and> id_text c = py_str v"
  using assms
  by (simp add: SMPPClientConfig_init_def kwargs_get_def py_eq_None_iff Let_def
      not_int_nor_float_def py_in_strs_def py_in_ints_def)

text \<open>Each check of the constructor, made on \<open>kwargs.get(key, default)\<close>, read on the input.\<close>

lemma chk_id:
  "(\<not> py_eq_None (kwargs_get kwargs ''id'' PNone)
     \<and> idcheck_match (py_str (kwargs_get kwargs ''id'' PNone))) = id_gate kwargs"
  by (simp add: kwargs_get_def id_gate_def split: option.splits)

lemma chk_str: "isinstance_str (kwargs_get kwargs k (PStr d)) = supplied_ok isinstance_str kwargs k"
  by (simp add: kwargs_get_def supplied_ok_def split: option.splits)

lemma chk_int: "isinstance_int (kwargs_get kwargs k (PInt d)) = supplied_ok isinstance_int kwargs k"
  by (simp add: kwargs_get_def supplied_ok_def split: option.splits)

lemma chk_num:
  "not_int_nor_float (kwargs_get kwargs k (PInt d)) = (\<not> supplied_ok int_or_float kwargs k)"
  by (simp add: kwargs_get_def supplied_ok_def not_int_nor_float_def int_or_float_def
      split: option.splits)

lemma chk_bind:
  "py_in_strs (kwargs_get kwargs ''bindOperation'' (PStr ''transceiver''))
     [''transceiver'', ''transmitter'', ''receiver''] = bindOperation_ok kwargs"
  by (simp add: kwargs_get_def supplied_ok_def bindOperation_ok_def bindOperation_values_def
      py_in_strs_def split: option.splits)

lemma chk_coding:
  "py_in_ints (kwargs_get kwargs ''data_coding'' (PInt 0))
     [0, 1, 2, 3, 4, 5, 6, 7, 8, 9, 10, 13, 14] = data_coding_ok kwargs"
  by (simp add: kwargs_get_def supplied_ok_def data_coding_ok_def data_coding_values_def
      py_in_ints_def split: option.splits)

lemmas chk = chk_str chk_int chk_num chk_bind chk_coding

text \<open>The construction succeeds exactly when every check lets the input through.\<close>

lemma init_succeeds_iff:
  "(\<exists>c. SMPPClientConfig_init pdu kwargs = Inr c) \<longleftrightarrow>
     id_gate kwargs \<and> supplied_ok isinstance_str kwargs ''host''
     \<and> supplied_ok isinstance_int kwargs ''port''
     \<and> list_all (supplied_ok int_or_float kwargs) numeric_fields
     \<and> bindOperation_ok kwargs \<and> data_coding_ok kwargs"
  unfolding SMPPClientConfig_init_def Let_def chk numeric_fields_def chk_id [symmetric]
  by (simp split: sum.splits)

lemmas gate_defs = supplied_ok_def id_gate_def int_or_float_def numeric_fields_def
  bindOperation_values_def data_coding_values_def bindOperation_ok_def data_coding_ok_def
  type_gates_before_bind_def py_in_strs_def py_in_ints_def idcheck_match_def idbody_def
  idchar_def

text \<open>The formatting of a message fails on tuples only, and with \<open>TypeError\<close>.\<close>

lemma py_format_s_Inl:
  "py_format_s pre suf v = Inl e \<Longrightarrow> is_tuple v \<and> (\<exists>m. e = TypeError m)"
  by (cases "(pre, suf, v)" rule: py_format_s.cases) auto


text \<open>Past the identifier gate, the construction raises no identifier error.\<close>

lemma init_Inl_after_gate:
  assumes "SMPPClientConfig_init pdu kwargs = Inl e" and "id_gate kwargs"
  shows "\<exists>m. e = TypeMismatch m \<or> e = UnknownValue m \<or> e = TypeError m"
proof -
  from assms(2) have g: "\<not> py_eq_None (kwargs_get kwargs ''id'' PNone)"
      "idcheck_match (py_str (kwargs_get kwargs ''id'' PNone))"
    by (simp_all add: chk_id [symmetric])
  from assms(1) show ?thesis
    unfolding SMPPClientConfig_init_def Let_def
    by (auto simp: g split: if_splits sum.splits dest: py_format_s_Inl)
qed

text \<open>The identifier and the log file of a constructed configuration.\<close>

lemma init_Inr_log_file:
  assumes "SMPPClientConfig_init pdu kwargs = Inr c"
  shows "id_text c = py_str (kwargs_get kwargs ''id'' PNone)
       \<and> log_file c = kwargs_get kwargs ''log_file''
                        (PStr (''/var/log/jasmin/default-'' @ id_text c @ ''.log''))"
  using assms unfolding SMPPClientConfig_init_def Let_def
  by (auto split: if_splits sum.splits)

section \<open>The identifier gate\<close>

text \<open>
  The gate as the constructor implements it. Whatever else the input holds: when \<open>id\<close> is
  absent, or bound to \<open>None\<close>, the construction fails with \<open>ConfigUndefinedIdError\<close>; when
  \<open>id\<close> is bound to another value whose text \<open>idcheck\<close> does not match, it fails with
  \<open>ConfigInvalidIdError\<close>. The other fields are arbitrary here, so no malformed field can
  come before these two errors.
\<close>

theorem identifier_gate:
  "(kwargs ''id'' = None \<or> kwargs ''id'' = Some PNone \<longrightarrow>
      SMPPClientConfig_init pdu kwargs =
        Inl (ConfigUndefinedIdError ''SMPPClientConfig must have an id''))
   \<and> (\<forall>v. kwargs ''id'' = Some v \<and> v \<noteq> PNone \<and> \<not> idcheck_match (py_str v) \<longrightarrow>
        SMPPClientConfig_init pdu kwargs =
          Inl (ConfigInvalidIdError ''SMPPClientConfig id syntax is invalid''))"
  by (auto simp: SMPPClientConfig_init_def kwargs_get_def py_eq_None_iff)

text \<open>The gate on inputs whose port is malformed as well: no identifier, and the three
  ill-formed identifiers \<open>ab\<close>, \<open>id with spaces\<close> and \<open>toolongtoolongtoolongtoolong1\<close>.\<close>

theorem identifier_gate_witness:
  "SMPPClientConfig_init sample_pdu_types [''port'' \<mapsto> PStr ''abc''] =
     Inl (ConfigUndefinedIdError ''SMPPClientConfig must have an id'')
   \<and> \<not> idcheck_match (py_str (PStr ''ab''))
   \<and> SMPPClientConfig_init sample_pdu_types [''id'' \<mapsto> PStr ''ab'', ''port'' \<mapsto> PStr ''abc''] =
     Inl (ConfigInvalidIdError ''SMPPClientConfig id syntax is invalid'')
   \<and> \<not> idcheck_match (py_str (PStr ''id with spaces''))
   \<and> SMPPClientConfig_init sample_pdu_types
        [''id'' \<mapsto> PStr ''id with spaces'', ''port'' \<mapsto> PStr ''abc''] =
     Inl (ConfigInvalidIdError ''SMPPClientConfig id syntax is invalid'')
   \<and> \<not> idcheck_match (py_str (PStr ''toolongtoolongtoolongtoolong1''))
   \<and> SMPPClientConfig_init sample_pdu_types
        [''id'' \<mapsto> PStr ''toolongtoolongtoolongtoolong1'', ''port'' \<mapsto> PStr ''abc''] =
     Inl (ConfigInvalidIdError ''SMPPClientConfig id syntax is invalid'')"
proof -
  have a: "\<not> idcheck_match (py_str (PStr ''ab''))"
    by (simp add: idcheck_match_def idbody_def)
  have b: "\<not> idcheck_match (py_str (PStr ''id with spaces''))"
    by (simp add: idcheck_match_def idbody_def idchar_def)
  have c: "\<not> idcheck_match (py_str (PStr ''toolongtoolongtoolongtoolong1''))"
    by (simp add: idcheck_match_def idbody_def)
  show ?thesis
    using a b c
      identifier_gate [of "[''port'' \<mapsto> PStr ''abc'']" sample_pdu_types]
      identifier_gate [of "[''id'' \<mapsto> PStr ''ab'', ''port'' \<mapsto> PStr ''abc'']" sample_pdu_types]
      identifier_gate [of "[''id'' \<mapsto> PStr ''id with spaces'', ''port'' \<mapsto> PStr ''abc'']"
        sample_pdu_types]
      identifier_gate [of "[''id'' \<mapsto> PStr ''toolongtoolongtoolongtoolong1'',
        ''port'' \<mapsto> PStr ''abc'']" sample_pdu_types]
    by simp
qed

text \<open>
  Claim C1 says that an identifier whose text is not 3 to 25 characters of
  \<open>[A-Za-z0-9_-]\<close> fails with \<open>ConfigInvalidIdError\<close>. The constructor ends its pattern
  with \<open>$\<close>, which also matches just before a newline that ends the text: the identifier
  \<open>'abc\n'\<close>, whose last character is outside the class, is accepted and stored as it is,
  and its newline goes into the default log file.
\<close>

theorem identifier_trailing_newline_accepted:
  "\<not> list_all idchar (''abc'' @ [CHR 0x0A])
   \<and> \<not> isl (SMPPClientConfig_init sample_pdu_types
               [''id'' \<mapsto> PStr (''abc'' @ [CHR 0x0A])])
   \<and> id_text (projr (SMPPClientConfig_init sample_pdu_types
               [''id'' \<mapsto> PStr (''abc'' @ [CHR 0x0A])])) = ''abc'' @ [CHR 0x0A]
   \<and> log_file (projr (SMPPClientConfig_init sample_pdu_types
               [''id'' \<mapsto> PStr (''abc'' @ [CHR 0x0A])])) =
       PStr (''/var/log/jasmin/default-abc'' @ [CHR 0x0A] @ ''.log'')"
proof -
  let ?v = "PStr (''abc'' @ [CHR 0x0A])"
  have m: "idcheck_match (py_str ?v)"
    by (simp add: idcheck_match_def idbody_def idchar_def)
  from init_id_only [of ?v sample_pdu_types] m
  obtain c where c: "SMPPClientConfig_init sample_pdu_types [''id'' \<mapsto> ?v] = Inr c"
    and i: "id_text c = py_str ?v"
    by auto
  from init_Inr_log_file [OF c] i
  have "log_file c = PStr (''/var/log/jasmin/default-abc'' @ [CHR 0x0A] @ ''.log'')"
    by (simp add: kwargs_get_def)
  with c i show ?thesis by (simp add: idchar_def)
qed

section \<open>Construction from an identifier alone\<close>

text \<open>
  Claim C4. For every text of 3 to 25 characters drawn from \<open>[A-Za-z0-9_-]\<close>, the
  construction from that identifier and no other keyword succeeds: it yields the record
  that holds the identifier, the log file derived from it, and the default of every other
  field.
\<close>

theorem valid_identifier_builds:
  assumes "3 \<le> length s" and "length s \<le> 25" and "list_all idchar s"
  shows "SMPPClientConfig_init pdu [''id'' \<mapsto> PStr s] =
    Inr \<lparr> id_text = s,
          host = PStr ''127.0.0.1'',
          port = PInt 2775,
          username = PStr ''smppclient'',
          password = PStr ''password'',
          systemType = PStr [],
          log_file = PStr (''/var/log/jasmin/default-'' @ s @ ''.log''),
          log_level = PInt 20,
          log_format = PStr ''%(asctime)s %(levelname)-8s %(process)d %(message)s'',
          log_date_format = PStr ''%Y-%m-%d %H:%M:%S'',
          sessionInitTimerSecs = PInt 30,
          enquireLinkTimerSecs = PInt 10,
          inactivityTimerSecs = PInt 300,
          responseTimerSecs = PInt 60,
          reconnectOnConnectionLoss = PBool True,
          reconnectOnConnectionFailure = PBool True,
          reconnectOnConnectionLossDelay = PInt 10,
          reconnectOnConnectionFailureDelay = PInt 10,
          pduReadTimerSecs = PInt 10,
          useSSL = PBool False,
          SSLCertificateFile = PNone,
          bindOperation = PStr ''transceiver'',
          service_type = PNone,
          bind_addr_ton = AddrTon_UNKNOWN pdu,
          bind_addr_npi = AddrNpi_ISDN pdu,
          source_addr_ton = AddrTon_NATIONAL pdu,
          source_addr_npi = AddrNpi_ISDN pdu,
          dest_addr_ton = AddrTon_INTERNATIONAL pdu,
          dest_addr_npi = AddrNpi_ISDN pdu,
          address_range = PNone,
          source_addr = PNone,
          esm_class = EsmClass pdu (EsmClassMode_STORE_AND_FORWARD pdu) (EsmClassType_DEFAULT pdu),
          protocol_id = PNone,
          priority_flag = PriorityFlag_LEVEL_0 pdu,
          schedule_delivery_time = PNone,
          validity_period = PNone,
          registered_delivery =
            RegisteredDelivery pdu
              (RegisteredDeliveryReceipt_NO_SMSC_DELIVERY_RECEIPT_REQUESTED pdu),
          replace_if_present_flag = ReplaceIfPresentFlag_DO_NOT_REPLACE pdu,
          sm_default_msg_id = PInt 0,
          data_coding = PInt 0,
          addressTon = AddrTon_UNKNOWN pdu,
          addressNpi = AddrNpi_ISDN pdu,
          addressRange = PNone,
          requeue_delay = PInt 120,
          submit_sm_throughput = PInt 1,
          dlr_expiry = PInt 86400 \<rparr>"
  using assms
  by (simp add: SMPPClientConfig_init_def kwargs_get_def Let_def idcheck_match_def idbody_def
      not_int_nor_float_def py_in_strs_def py_in_ints_def logging_INFO_def)

theorem valid_identifier_builds_witness:
  "3 \<le> length ''gw1'' \<and> length ''gw1'' \<le> 25 \<and> list_all idchar ''gw1''
   \<and> (\<exists>c. SMPPClientConfig_init sample_pdu_types [''id'' \<mapsto> PStr ''gw1''] = Inr c
          \<and> id_text c = ''gw1'' \<and> host c = PStr ''127.0.0.1'' \<and> port c = PInt 2775
          \<and> bindOperation c = PStr ''transceiver'' \<and> data_coding c = PInt 0
          \<and> bind_addr_ton c = PObj ''AddrTon.UNKNOWN'' (\<lambda>n. False))"
proof -
  have h: "3 \<le> length ''gw1''" "length ''gw1'' \<le> 25" "list_all idchar ''gw1''"
    by (simp_all add: idchar_def)
  show ?thesis
    using h valid_identifier_builds [OF h, of sample_pdu_types]
    by (simp add: sample_pdu_types_def)
qed

section \<open>Defaults, the derived log file and the aliases\<close>

text \<open>
  Claim C5. In every successful construction, a field absent from the input holds its
  default: \<open>host\<close> is \<open>'127.0.0.1'\<close>, \<open>port\<close> is 2775, \<open>data_coding\<close> is the integer 0,
  \<open>requeue_delay\<close> is 120, \<open>submit_sm_throughput\<close> is 1 and \<open>dlr_expiry\<close> is 86400.
\<close>

theorem defaults_substituted:
  assumes "SMPPClientConfig_init pdu kwargs = Inr c"
  shows "(kwargs ''host'' = None \<longrightarrow> host c = PStr ''127.0.0.1'')
       \<and> (kwargs ''port'' = None \<longrightarrow> port c = PInt 2775)
       \<and> (kwargs ''data_coding'' = None \<longrightarrow> data_coding c = PInt 0)
       \<and> (kwargs ''requeue_delay'' = None \<longrightarrow> requeue_delay c = PInt 120)
       \<and> (kwargs ''submit_sm_throughput'' = None \<longrightarrow> submit_sm_throughput c = PInt 1)
       \<and> (kwargs ''dlr_expiry'' = None \<longrightarrow> dlr_expiry c = PInt 86400)"
  using assms unfolding SMPPClientConfig_init_def Let_def
  by (auto simp: kwargs_get_def split: if_splits sum.splits)

text \<open>A construction that supplies the port and the requeue delay, and nothing else beside
  the identifier: the four other fields hold their defaults.\<close>

theorem defaults_substituted_witness:
  "\<exists>c. SMPPClientConfig_init sample_pdu_types
          [''id'' \<mapsto> PStr ''gw1'', ''port'' \<mapsto> PInt 2776, ''requeue_delay'' \<mapsto> PInt 60] = Inr c
       \<and> host c = PStr ''127.0.0.1'' \<and> data_coding c = PInt 0
       \<and> submit_sm_throughput c = PInt 1 \<and> dlr_expiry c = PInt 86400"
proof -
  let ?kw = "[''id'' \<mapsto> PStr ''gw1'', ''port'' \<mapsto> PInt 2776, ''requeue_delay'' \<mapsto> PInt 60]"
  have "\<exists>c. SMPPClientConfig_init sample_pdu_types ?kw = Inr c"
    unfolding init_succeeds_iff by (simp add: gate_defs)
  then obtain c where c: "SMPPClientConfig_init sample_pdu_types ?kw = Inr c" ..
  from defaults_substituted [OF c] c show ?thesis by auto
qed

text \<open>
  Claim C6. In every successful construction without a \<open>log_file\<close> keyword, the log file is
  \<open>'/var/log/jasmin/default-' + id + '.log'\<close>, where \<open>id\<close> is the text of the supplied
  identifier; with a \<open>log_file\<close> keyword, the log file is the supplied value as it is.
\<close>

theorem log_file_derivation:
  assumes "SMPPClientConfig_init pdu kwargs = Inr c"
  shows "(kwargs ''log_file'' = None \<longrightarrow>
            (\<exists>i. kwargs ''id'' = Some i \<and> id_text c = py_str i)
            \<and> log_file c = PStr (''/var/log/jasmin/default-'' @ id_text c @ ''.log''))
       \<and> (\<forall>v. kwargs ''log_file'' = Some v \<longrightarrow> log_file c = v)"
proof -
  from assms have "\<exists>c. SMPPClientConfig_init pdu kwargs = Inr c" by blast
  then have "id_gate kwargs" by (simp add: init_succeeds_iff)
  then obtain i where i: "kwargs ''id'' = Some i"
    by (auto simp: id_gate_def split: option.splits)
  from init_Inr_log_file [OF assms] i show ?thesis
    by (auto simp: kwargs_get_def)
qed

theorem log_file_derivation_witness:
  "(\<exists>c. SMPPClientConfig_init sample_pdu_types [''id'' \<mapsto> PStr ''gw1''] = Inr c
        \<and> log_file c = PStr ''/var/log/jasmin/default-gw1.log'')
   \<and> (\<exists>c. SMPPClientConfig_init sample_pdu_types
              [''id'' \<mapsto> PStr ''gw1'', ''log_file'' \<mapsto> PStr ''/tmp/gw1.log''] = Inr c
        \<and> log_file c = PStr ''/tmp/gw1.log'')"
proof -
  let ?kw1 = "[''id'' \<mapsto> PStr ''gw1'']"
  let ?kw2 = "[''id'' \<mapsto> PStr ''gw1'', ''log_file'' \<mapsto> PStr ''/tmp/gw1.log'']"
  have "\<exists>c. SMPPClientConfig_init sample_pdu_types ?kw1 = Inr c"
    unfolding init_succeeds_iff by (simp add: gate_defs)
  then obtain c1 where c1: "SMPPClientConfig_init sample_pdu_types ?kw1 = Inr c1" ..
  have "\<exists>c. SMPPClientConfig_init sample_pdu_types ?kw2 = Inr c"
    unfolding init_succeeds_iff by (simp add: gate_defs)
  then obtain c2 where c2: "SMPPClientConfig_init sample_pdu_types ?kw2 = Inr c2" ..
  from log_file_derivation [OF c1]
  have "log_file c1 = PStr ''/var/log/jasmin/default-gw1.log''" by simp
  moreover from log_file_derivation [OF c2] have "log_file c2 = PStr ''/tmp/gw1.log''"
    by simp
  ultimately show ?thesis using c1 c2 by blast
qed

text \<open>
  Claim C7. In every successful construction, \<open>addressTon\<close>, \<open>addressNpi\<close> and
  \<open>addressRange\<close> equal \<open>bind_addr_ton\<close>, \<open>bind_addr_npi\<close> and \<open>address_range\<close>.
\<close>

theorem alias_mirroring:
  assumes "SMPPClientConfig_init pdu kwargs = Inr c"
  shows "addressTon c = bind_addr_ton c \<and> addressNpi c = bind_addr_npi c
         \<and> addressRange c = address_range c"
  using assms unfolding SMPPClientConfig_init_def Let_def
  by (auto split: if_splits sum.splits)

text \<open>With a supplied \<open>bind_addr_ton\<close> and \<open>address_range\<close>, and the default
  \<open>bind_addr_npi\<close>.\<close>

theorem alias_mirroring_witness:
  "\<exists>c. SMPPClientConfig_init sample_pdu_types
          [''id'' \<mapsto> PStr ''gw1'', ''bind_addr_ton'' \<mapsto> PInt 1,
           ''address_range'' \<mapsto> PStr ''^33''] = Inr c
       \<and> addressTon c = PInt 1 \<and> bind_addr_ton c = PInt 1
       \<and> addressNpi c = bind_addr_npi c
       \<and> addressRange c = PStr ''^33'' \<and> address_range c = PStr ''^33''"
proof -
  let ?kw = "[''id'' \<mapsto> PStr ''gw1'', ''bind_addr_ton'' \<mapsto> PInt 1,
              ''address_range'' \<mapsto> PStr ''^33'']"
  have "\<exists>c. SMPPClientConfig_init sample_pdu_types ?kw = Inr c"
    unfolding init_succeeds_iff by (simp add: gate_defs)
  then obtain c where c: "SMPPClientConfig_init sample_pdu_types ?kw = Inr c" ..
  have "bind_addr_ton c = PInt 1 \<and> address_range c = PStr ''^33''"
    using c unfolding SMPPClientConfig_init_def Let_def
    by (auto simp: kwargs_get_def split: if_splits sum.splits)
  with alias_mirroring [OF c] c show ?thesis by auto
qed

section \<open>The key translation table\<close>

text \<open>
  Claim C8. The table translates \<open>cid\<close> to \<open>id\<close> and \<open>elink_interval\<close> to
  \<open>enquireLinkTimerSecs\<close>; a key that is not registered in the table has no translation,
  and every translation given is a pair of the table.
\<close>

theorem key_translation:
  "translate ''cid'' = Some ''id''
   \<and> translate ''elink_interval'' = Some ''enquireLinkTimerSecs''
   \<and> (k \<notin> fst ` set SMPPClientConfigMap \<longrightarrow> translate k = None)
   \<and> (translate k = Some i \<longrightarrow> (k, i) \<in> set SMPPClientConfigMap)"
proof (intro conjI impI)
  show "translate ''cid'' = Some ''id''"
    by (simp add: translate_def SMPPClientConfigMap_def)
  show "translate ''elink_interval'' = Some ''enquireLinkTimerSecs''"
    by (simp add: translate_def SMPPClientConfigMap_def)
next
  assume "k \<notin> fst ` set SMPPClientConfigMap"
  then show "translate k = None"
    by (simp add: translate_def map_of_eq_None_iff)
next
  assume "translate k = Some i"
  then show "(k, i) \<in> set SMPPClientConfigMap"
    unfolding translate_def by (rule map_of_SomeD)
qed

text \<open>The key \<open>foo\<close> is not registered; the translation of \<open>systype\<close> is a pair of the
  table.\<close>

theorem key_translation_witness:
  "''foo'' \<notin> fst ` set SMPPClientConfigMap \<and> translate ''foo'' = None
   \<and> translate ''systype'' = Some ''systemType''
   \<and> (''systype'', ''systemType'') \<in> set SMPPClientConfigMap"
proof -
  have a: "''foo'' \<notin> fst ` set SMPPClientConfigMap"
    by (simp add: SMPPClientConfigMap_def)
  have b: "translate ''systype'' = Some ''systemType''"
    by (simp add: translate_def SMPPClientConfigMap_def)
  from a key_translation [of "''foo''" i] have "translate ''foo'' = None" by blast
  moreover from b key_translation [of "''systype''" "''systemType''"]
  have "(''systype'', ''systemType'') \<in> set SMPPClientConfigMap" by blast
  ultimately show ?thesis using a b by simp
qed

section \<open>The service configuration\<close>

text \<open>
  Claim C9 says that the level held is the numeric severity parsed from the stored or
  defaulted level name. \<open>getLevelName\<close> gives a number for a registered name only: for the
  stored name \<open>info\<close>, which is not registered, the level held is the text \<open>'Level info'\<close>.
\<close>

theorem service_config_level_counterexample:
  "SMPPClientServiceConfig.log_level
     (SMPPClientServiceConfig_init [''service-smppclient'' \<mapsto> [''log_level'' \<mapsto> ''info'']]) =
   PStr ''Level info''"
  by (simp add: SMPPClientServiceConfig_init_def ConfigFile_get_def getLevelName_def
      levelNames_def)

text \<open>
  Claim C9, amended. The service configuration reads four options, each with its literal
  default: the level name \<open>log_level\<close> (default \<open>INFO\<close>) from the section
  \<open>service-smppclient\<close>, and \<open>log_file\<close>, \<open>log_format\<close> and \<open>log_date_format\<close> from the section
  \<open>services-smppclient\<close>. The level it holds is 20 when no level name is stored, the
  severity of the stored name when that name is registered, and the text
  \<open>'Level ' + name\<close> when it is not. Nothing else of the store is read: two stores that
  agree on these four options give the same configuration.
\<close>

theorem service_config_load:
  "(cell store ''service-smppclient'' ''log_level'' = None \<longrightarrow>
      SMPPClientServiceConfig.log_level (SMPPClientServiceConfig_init store) = PInt 20)
   \<and> (cell store ''service-smppclient'' ''log_level'' = Some name
        \<and> (name, n) \<in> set [(''CRITICAL'', 50), (''FATAL'', 50), (''ERROR'', 40),
                              (''WARN'', 30), (''WARNING'', 30), (''INFO'', 20),
                              (''DEBUG'', 10), (''NOTSET'', 0)] \<longrightarrow>
      SMPPClientServiceConfig.log_level (SMPPClientServiceConfig_init store) = PInt n)
   \<and> (cell store ''service-smppclient'' ''log_level'' = Some name
        \<and> name \<notin> set [''CRITICAL'', ''FATAL'', ''ERROR'', ''WARN'', ''WARNING'', ''INFO'',
                          ''DEBUG'', ''NOTSET''] \<longrightarrow>
      SMPPClientServiceConfig.log_level (SMPPClientServiceConfig_init store) =
        PStr (''Level '' @ name))
   \<and> SMPPClientServiceConfig.log_file (SMPPClientServiceConfig_init store) =
     (case cell store ''services-smppclient'' ''log_file'' of
        None \<Rightarrow> ''/var/log/jasmin/service-smppclient.log'' | Some f \<Rightarrow> f)
   \<and> SMPPClientServiceConfig.log_format (SMPPClientServiceConfig_init store) =
     (case cell store ''services-smppclient'' ''log_format'' of
        None \<Rightarrow> ''%(asctime)s %(levelname)-8s %(process)d %(message)s'' | Some f \<Rightarrow> f)
   \<and> SMPPClientServiceConfig.log_date_format (SMPPClientServiceConfig_init store) =
     (case cell store ''services-smppclient'' ''log_date_format'' of
        None \<Rightarrow> ''%Y-%m-%d %H:%M:%S'' | Some f \<Rightarrow> f)
   \<and> (cell store' ''service-smppclient'' ''log_level'' =
        cell store ''service-smppclient'' ''log_level''
      \<and> cell store' ''services-smppclient'' ''log_file'' =
        cell store ''services-smppclient'' ''log_file''
      \<and> cell store' ''services-smppclient'' ''log_format'' =
        cell store ''services-smppclient'' ''log_format''
      \<and> cell store' ''services-smppclient'' ''log_date_format'' =
        cell store ''services-smppclient'' ''log_date_format''
      \<longrightarrow> SMPPClientServiceConfig_init store' = SMPPClientServiceConfig_init store)"
proof -
  have get: "\<And>s sec opt d. ConfigFile_get s sec opt d =
      (case cell s sec opt of None \<Rightarrow> d | Some v \<Rightarrow> v)"
    by (simp add: ConfigFile_get_def cell_def split: option.splits)
  have info: "getLevelName ''INFO'' = PInt 20"
    by (simp add: getLevelName_def levelNames_def logging_INFO_def)
  have reg: "(name, n) \<in> set [(''CRITICAL'', 50), (''FATAL'', 50), (''ERROR'', 40),
        (''WARN'', 30), (''WARNING'', 30), (''INFO'', 20), (''DEBUG'', 10), (''NOTSET'', 0)]
      \<Longrightarrow> getLevelName name = PInt n"
    by (auto simp: getLevelName_def levelNames_def logging_INFO_def)
  have unreg: "name \<notin> set [''CRITICAL'', ''FATAL'', ''ERROR'', ''WARN'', ''WARNING'', ''INFO'',
        ''DEBUG'', ''NOTSET''] \<Longrightarrow> getLevelName name = PStr (''Level '' @ name)"
    by (simp add: getLevelName_def levelNames_def)
  have lvl: "SMPPClientServiceConfig.log_level (SMPPClientServiceConfig_init store) =
      getLevelName (case cell store ''service-smppclient'' ''log_level'' of
                      None \<Rightarrow> ''INFO'' | Some x \<Rightarrow> x)"
    by (simp add: SMPPClientServiceConfig_init_def get)
  show ?thesis
  proof (intro conjI impI)
    assume "cell store ''service-smppclient'' ''log_level'' = None"
    with lvl info
    show "SMPPClientServiceConfig.log_level (SMPPClientServiceConfig_init store) = PInt 20"
      by simp
  next
    assume "cell store ''service-smppclient'' ''log_level'' = Some name
        \<and> (name, n) \<in> set [(''CRITICAL'', 50), (''FATAL'', 50), (''ERROR'', 40),
                              (''WARN'', 30), (''WARNING'', 30), (''INFO'', 20),
                              (''DEBUG'', 10), (''NOTSET'', 0)]"
    with lvl reg
    show "SMPPClientServiceConfig.log_level (SMPPClientServiceConfig_init store) = PInt n"
      by simp
  next
    assume "cell store ''service-smppclient'' ''log_level'' = Some name
        \<and> name \<notin> set [''CRITICAL'', ''FATAL'', ''ERROR'', ''WARN'', ''WARNING'', ''INFO'',
                          ''DEBUG'', ''NOTSET'']"
    with lvl unreg
    show "SMPPClientServiceConfig.log_level (SMPPClientServiceConfig_init store) =
        PStr (''Level '' @ name)"
      by simp
  qed (simp_all add: SMPPClientServiceConfig_init_def get)
qed

text \<open>The empty store gives the four defaults; the stored names \<open>DEBUG\<close> and \<open>FATAL\<close> give
  the levels 10 and 50, the stored name \<open>verbose\<close> the text \<open>'Level verbose'\<close>; and an
  option of another section changes nothing.\<close>

theorem service_config_load_witness:
  "SMPPClientServiceConfig_init Map.empty =
     \<lparr> SMPPClientServiceConfig.log_level = PInt 20,
       log_file = ''/var/log/jasmin/service-smppclient.log'',
       log_format = ''%(asctime)s %(levelname)-8s %(process)d %(message)s'',
       log_date_format = ''%Y-%m-%d %H:%M:%S'' \<rparr>
   \<and> SMPPClientServiceConfig.log_level
       (SMPPClientServiceConfig_init
          [''service-smppclient'' \<mapsto> [''log_level'' \<mapsto> ''DEBUG''],
           ''other'' \<mapsto> [''log_file'' \<mapsto> ''/tmp/x.log'']]) = PInt 10
   \<and> SMPPClientServiceConfig.log_level
       (SMPPClientServiceConfig_init
          [''service-smppclient'' \<mapsto> [''log_level'' \<mapsto> ''FATAL'']]) = PInt 50
   \<and> SMPPClientServiceConfig.log_level
       (SMPPClientServiceConfig_init
          [''service-smppclient'' \<mapsto> [''log_level'' \<mapsto> ''verbose'']]) = PStr ''Level verbose''
   \<and> SMPPClientServiceConfig_init
        [''service-smppclient'' \<mapsto> [''log_level'' \<mapsto> ''DEBUG''],
         ''other'' \<mapsto> [''log_file'' \<mapsto> ''/tmp/x.log'']] =
     SMPPClientServiceConfig_init [''service-smppclient'' \<mapsto> [''log_level'' \<mapsto> ''DEBUG'']]"
proof -
  let ?s1 = "[''service-smppclient'' \<mapsto> [''log_level'' \<mapsto> ''DEBUG''],
              ''other'' \<mapsto> [''log_file'' \<mapsto> ''/tmp/x.log'']]"
  let ?s2 = "[''service-smppclient'' \<mapsto> [''log_level'' \<mapsto> ''DEBUG'']]"
  let ?s3 = "[''service-smppclient'' \<mapsto> [''log_level'' \<mapsto> ''FATAL'']]"
  let ?s4 = "[''service-smppclient'' \<mapsto> [''log_level'' \<mapsto> ''verbose'']]"
  have e: "SMPPClientServiceConfig_init Map.empty =
     \<lparr> SMPPClientServiceConfig.log_level = PInt 20,
       log_file = ''/var/log/jasmin/service-smppclient.log'',
       log_format = ''%(asctime)s %(levelname)-8s %(process)d %(message)s'',
       log_date_format = ''%Y-%m-%d %H:%M:%S'' \<rparr>"
    using service_config_load [of Map.empty name n Map.empty]
    by (cases "SMPPClientServiceConfig_init Map.empty") (simp add: cell_def)
  have l: "SMPPClientServiceConfig.log_level (SMPPClientServiceConfig_init ?s1) = PInt 10"
    using service_config_load [of ?s1 "''DEBUG''" 10 ?s1] by (simp add: cell_def)
  have f: "SMPPClientServiceConfig.log_level (SMPPClientServiceConfig_init ?s3) = PInt 50"
    using service_config_load [of ?s3 "''FATAL''" 50 ?s3] by (simp add: cell_def)
  have u: "SMPPClientServiceConfig.log_level (SMPPClientServiceConfig_init ?s4) =
      PStr ''Level verbose''"
    using service_config_load [of ?s4 "''verbose''" n ?s4] by (simp add: cell_def)
  have s: "SMPPClientServiceConfig_init ?s1 = SMPPClientServiceConfig_init ?s2"
    using service_config_load [of ?s2 name n ?s1] by (simp add: cell_def)
  from e l f u s show ?thesis by simp
qed

section \<open>Identifiers that are not text\<close>

text \<open>
  Claim C10. An identifier bound to \<open>None\<close> fails like an absent one, with
  \<open>ConfigUndefinedIdError\<close>. An identifier bound to any other value \<open>v\<close> whose text matches
  the pattern passes the gate: the construction raises neither identifier error, a
  successful construction stores \<open>str(v)\<close> as \<open>id\<close>, and the construction from the
  identifier alone succeeds.
\<close>

theorem identifier_none_or_not_text:
  "(kwargs ''id'' = Some PNone \<longrightarrow>
      SMPPClientConfig_init pdu kwargs =
        Inl (ConfigUndefinedIdError ''SMPPClientConfig must have an id''))
   \<and> (kwargs ''id'' = Some v \<and> v \<noteq> PNone \<and> idcheck_match (py_str v) \<longrightarrow>
          (\<forall>m. SMPPClientConfig_init pdu kwargs \<noteq> Inl (ConfigUndefinedIdError m)
               \<and> SMPPClientConfig_init pdu kwargs \<noteq> Inl (ConfigInvalidIdError m))
          \<and> (\<forall>c. SMPPClientConfig_init pdu kwargs = Inr c \<longrightarrow> id_text c = py_str v))
   \<and> (v \<noteq> PNone \<and> idcheck_match (py_str v) \<longrightarrow>
          (\<exists>c. SMPPClientConfig_init pdu [''id'' \<mapsto> v] = Inr c \<and> id_text c = py_str v))"
proof (intro conjI impI)
  assume "kwargs ''id'' = Some PNone"
  then show "SMPPClientConfig_init pdu kwargs =
      Inl (ConfigUndefinedIdError ''SMPPClientConfig must have an id'')"
    by (simp add: SMPPClientConfig_init_def kwargs_get_def)
next
  assume v: "kwargs ''id'' = Some v \<and> v \<noteq> PNone \<and> idcheck_match (py_str v)"
  then have g: "id_gate kwargs"
    by (simp add: id_gate_def py_eq_None_iff)
  show "\<forall>m. SMPPClientConfig_init pdu kwargs \<noteq> Inl (ConfigUndefinedIdError m)
          \<and> SMPPClientConfig_init pdu kwargs \<noteq> Inl (ConfigInvalidIdError m)"
    using init_Inl_after_gate [OF _ g, of pdu] by fastforce
next
  assume v: "kwargs ''id'' = Some v \<and> v \<noteq> PNone \<and> idcheck_match (py_str v)"
  show "\<forall>c. SMPPClientConfig_init pdu kwargs = Inr c \<longrightarrow> id_text c = py_str v"
    using v init_Inr_log_file [of pdu kwargs] by (auto simp: kwargs_get_def)
next
  assume "v \<noteq> PNone \<and> idcheck_match (py_str v)"
  then show "\<exists>c. SMPPClientConfig_init pdu [''id'' \<mapsto> v] = Inr c \<and> id_text c = py_str v"
    using init_id_only by simp
qed

text \<open>The identifier \<open>None\<close> beside a valid port, and the integer 12345, whose text is
  \<open>'12345'\<close>.\<close>

theorem identifier_none_or_not_text_witness:
  "SMPPClientConfig_init sample_pdu_types [''id'' \<mapsto> PNone, ''port'' \<mapsto> PInt 2775] =
     Inl (ConfigUndefinedIdError ''SMPPClientConfig must have an id'')
   \<and> PInt 12345 \<noteq> PNone \<and> py_str (PInt 12345) = ''12345''
   \<and> idcheck_match (py_str (PInt 12345))
   \<and> (\<exists>c. SMPPClientConfig_init sample_pdu_types [''id'' \<mapsto> PInt 12345] = Inr c
          \<and> id_text c = ''12345'')"
proof -
  have s: "py_str (PInt 12345) = ''12345''"
    by (simp add: str_int_def str_nat.simps)
  have m: "idcheck_match (py_str (PInt 12345))"
    unfolding s by (simp add: idcheck_match_def idbody_def idchar_def)
  have n: "PInt 12345 \<noteq> PNone" by simp
  from identifier_none_or_not_text
         [where kwargs = "[''id'' \<mapsto> PNone, ''port'' \<mapsto> PInt 2775]"
            and pdu = sample_pdu_types and v = PNone]
  have a: "SMPPClientConfig_init sample_pdu_types [''id'' \<mapsto> PNone, ''port'' \<mapsto> PInt 2775] =
      Inl (ConfigUndefinedIdError ''SMPPClientConfig must have an id'')"
    by simp
  from identifier_none_or_not_text
         [where kwargs = "[''id'' \<mapsto> PInt 12345]" and pdu = sample_pdu_types
            and v = "PInt 12345"] n m
  have b: "\<exists>c. SMPPClientConfig_init sample_pdu_types [''id'' \<mapsto> PInt 12345] = Inr c
      \<and> id_text c = py_str (PInt 12345)"
    by blast
  from a b s m n show ?thesis by simp
qed

section \<open>The order of the checks\<close>

lemma not_supplied_ok: "kwargs k = Some v \<Longrightarrow> \<not> P v \<Longrightarrow> \<not> supplied_ok P kwargs k"
  by (simp add: supplied_ok_def)

lemma init_host_fails:
  assumes "id_gate kwargs" and "\<not> supplied_ok isinstance_str kwargs ''host''"
  shows "SMPPClientConfig_init pdu kwargs = Inl (TypeMismatch ''host must be a string'')"
  using assms unfolding SMPPClientConfig_init_def Let_def chk chk_id [symmetric]
  by simp

lemma init_port_fails:
  assumes "id_gate kwargs" and "supplied_ok isinstance_str kwargs ''host''"
    and "\<not> supplied_ok isinstance_int kwargs ''port''"
  shows "SMPPClientConfig_init pdu kwargs = Inl (TypeMismatch ''port must be an integer'')"
  using assms unfolding SMPPClientConfig_init_def Let_def chk chk_id [symmetric]
  by simp

lemma init_numeric_fails:
  assumes "id_gate kwargs" and "supplied_ok isinstance_str kwargs ''host''"
    and "supplied_ok isinstance_int kwargs ''port''"
    and "list_all (supplied_ok int_or_float kwargs) (take i numeric_fields)"
    and "7 \<le> i \<longrightarrow> bindOperation_ok kwargs \<and> data_coding_ok kwargs"
    and "\<not> supplied_ok int_or_float kwargs (numeric_fields ! i)"
    and "i < length numeric_fields"
  shows "SMPPClientConfig_init pdu kwargs =
           Inl (TypeMismatch (numeric_fields ! i @ '' must be an integer or float''))"
proof -
  from assms(7) have "i \<in> {0, 1, 2, 3, 4, 5, 6, 7, 8, 9}"
    by (simp add: numeric_fields_def) arith
  then show ?thesis
    using assms(1-6) unfolding SMPPClientConfig_init_def Let_def chk chk_id [symmetric]
    by (elim insertE emptyE; simp add: numeric_fields_def)
qed

lemma init_no_TypeMismatch:
  assumes "supplied_ok isinstance_str kwargs ''host''"
    and "supplied_ok isinstance_int kwargs ''port''"
    and "list_all (supplied_ok int_or_float kwargs) numeric_fields"
  shows "SMPPClientConfig_init pdu kwargs \<noteq> Inl (TypeMismatch m)"
  using assms unfolding SMPPClientConfig_init_def Let_def chk numeric_fields_def
  by (auto split: sum.splits dest: py_format_s_Inl)




lemma init_Inr_username_port:
  assumes "SMPPClientConfig_init pdu kwargs = Inr c"
  shows "username c = kwargs_get kwargs ''username'' (PStr ''smppclient'')
       \<and> password c = kwargs_get kwargs ''password'' (PStr ''password'')
       \<and> port c = kwargs_get kwargs ''port'' (PInt 2775)"
  using assms unfolding SMPPClientConfig_init_def Let_def
  by (auto split: if_splits sum.splits)

section \<open>The type checks\<close>

text \<open>
  Claim C2 says that a value of the wrong type for any declared field fails with
  \<open>TypeMismatch\<close> naming that field, for text fields such as \<open>username\<close> and for a boolean
  given as a port or a timer. The constructor checks no type for \<open>username\<close>, and a
  boolean is an \<open>int\<close> for \<open>isinstance\<close>: the construction below succeeds and keeps the
  integer 5 as user name and \<open>True\<close> as port.
\<close>

theorem type_gate_counterexample:
  "\<not> isl (SMPPClientConfig_init sample_pdu_types
             [''id'' \<mapsto> PStr ''gw1'', ''username'' \<mapsto> PInt 5, ''port'' \<mapsto> PBool True])
   \<and> username (projr (SMPPClientConfig_init sample_pdu_types
        [''id'' \<mapsto> PStr ''gw1'', ''username'' \<mapsto> PInt 5, ''port'' \<mapsto> PBool True])) = PInt 5
   \<and> port (projr (SMPPClientConfig_init sample_pdu_types
        [''id'' \<mapsto> PStr ''gw1'', ''username'' \<mapsto> PInt 5, ''port'' \<mapsto> PBool True])) = PBool True"
proof -
  let ?kw = "[''id'' \<mapsto> PStr ''gw1'', ''username'' \<mapsto> PInt 5, ''port'' \<mapsto> PBool True]"
  have "\<exists>c. SMPPClientConfig_init sample_pdu_types ?kw = Inr c"
    unfolding init_succeeds_iff by (simp add: gate_defs)
  then obtain c where c: "SMPPClientConfig_init sample_pdu_types ?kw = Inr c" ..
  from init_Inr_username_port [OF c] have "username c = PInt 5 \<and> port c = PBool True"
    by (simp add: kwargs_get_def)
  with c show ?thesis by simp
qed

text \<open>
  Claim C2, amended. The constructor checks the type of \<open>host\<close>, of \<open>port\<close> and of the ten
  timer and delay fields, in the order of the source and after the identifier gate; it
  checks the type of no other field. Past the identifier gate:
  \<^item> a supplied \<open>host\<close> that is not text fails with \<open>TypeMismatch\<close> naming \<open>host\<close>;
  \<^item> when \<open>host\<close> passes, a supplied \<open>port\<close> that is not an integer fails with
    \<open>TypeMismatch\<close> naming \<open>port\<close>;
  \<^item> when \<open>host\<close>, \<open>port\<close> and the timers and delays checked before it pass (and, for the
    last three, the checks of \<open>bindOperation\<close> and \<open>data_coding\<close> as well), a timer or
    delay supplied with a value that is neither an integer nor a float fails with
    \<open>TypeMismatch\<close> naming that field;
  \<^item> when these twelve fields pass, the construction raises no \<open>TypeMismatch\<close>, whatever
    the other fields hold.

  Text is neither an integer nor a float; a boolean is an integer for these checks.
\<close>

theorem type_gate_checked_fields:
  assumes "id_gate kwargs"
  shows
    "(kwargs ''host'' = Some v \<and> \<not> isinstance_str v \<longrightarrow>
        SMPPClientConfig_init pdu kwargs = Inl (TypeMismatch ''host must be a string''))
     \<and> (supplied_ok isinstance_str kwargs ''host''
          \<and> kwargs ''port'' = Some v \<and> \<not> isinstance_int v \<longrightarrow>
        SMPPClientConfig_init pdu kwargs = Inl (TypeMismatch ''port must be an integer''))
     \<and> (i < length numeric_fields
          \<and> supplied_ok isinstance_str kwargs ''host''
          \<and> supplied_ok isinstance_int kwargs ''port''
          \<and> list_all (supplied_ok int_or_float kwargs) (take i numeric_fields)
          \<and> (7 \<le> i \<longrightarrow> bindOperation_ok kwargs \<and> data_coding_ok kwargs)
          \<and> kwargs (numeric_fields ! i) = Some v \<and> \<not> int_or_float v \<longrightarrow>
        SMPPClientConfig_init pdu kwargs =
          Inl (TypeMismatch (numeric_fields ! i @ '' must be an integer or float'')))
     \<and> (supplied_ok isinstance_str kwargs ''host''
          \<and> supplied_ok isinstance_int kwargs ''port''
          \<and> list_all (supplied_ok int_or_float kwargs) numeric_fields \<longrightarrow>
        (\<forall>m. SMPPClientConfig_init pdu kwargs \<noteq> Inl (TypeMismatch m)))
     \<and> \<not> isinstance_int (PStr s) \<and> \<not> int_or_float (PStr s)
     \<and> isinstance_int (PBool b) \<and> int_or_float (PBool b)"
proof (intro conjI impI allI)
  assume "kwargs ''host'' = Some v \<and> \<not> isinstance_str v"
  then have "\<not> supplied_ok isinstance_str kwargs ''host''"
    by (simp add: not_supplied_ok)
  with assms show "SMPPClientConfig_init pdu kwargs = Inl (TypeMismatch ''host must be a string'')"
    by (rule init_host_fails)
next
  assume a: "supplied_ok isinstance_str kwargs ''host''
      \<and> kwargs ''port'' = Some v \<and> \<not> isinstance_int v"
  then have "\<not> supplied_ok isinstance_int kwargs ''port''"
    by (simp add: not_supplied_ok)
  with assms a show "SMPPClientConfig_init pdu kwargs =
      Inl (TypeMismatch ''port must be an integer'')"
    by (simp add: init_port_fails)
next
  assume a: "i < length numeric_fields
      \<and> supplied_ok isinstance_str kwargs ''host''
      \<and> supplied_ok isinstance_int kwargs ''port''
      \<and> list_all (supplied_ok int_or_float kwargs) (take i numeric_fields)
      \<and> (7 \<le> i \<longrightarrow> bindOperation_ok kwargs \<and> data_coding_ok kwargs)
      \<and> kwargs (numeric_fields ! i) = Some v \<and> \<not> int_or_float v"
  then have "\<not> supplied_ok int_or_float kwargs (numeric_fields ! i)"
    by (simp add: not_supplied_ok)
  with assms a show "SMPPClientConfig_init pdu kwargs =
      Inl (TypeMismatch (numeric_fields ! i @ '' must be an integer or float''))"
    by (intro init_numeric_fails) simp_all
next
  fix m
  assume "supplied_ok isinstance_str kwargs ''host''
      \<and> supplied_ok isinstance_int kwargs ''port''
      \<and> list_all (supplied_ok int_or_float kwargs) numeric_fields"
  then show "SMPPClientConfig_init pdu kwargs \<noteq> Inl (TypeMismatch m)"
    by (intro init_no_TypeMismatch) simp_all
qed (simp_all add: int_or_float_def)

text \<open>An integer as host; the text \<open>abc\<close> as port; the text \<open>1d\<close> as \<open>dlr_expiry\<close>, the last
  field checked; and a construction with a boolean port and an integer user name, which
  raises no \<open>TypeMismatch\<close>.\<close>

theorem type_gate_checked_fields_witness:
  "id_gate [''id'' \<mapsto> PStr ''gw1'', ''host'' \<mapsto> PInt 5]
   \<and> SMPPClientConfig_init sample_pdu_types [''id'' \<mapsto> PStr ''gw1'', ''host'' \<mapsto> PInt 5] =
       Inl (TypeMismatch ''host must be a string'')
   \<and> id_gate [''id'' \<mapsto> PStr ''gw1'', ''port'' \<mapsto> PStr ''abc'']
   \<and> SMPPClientConfig_init sample_pdu_types [''id'' \<mapsto> PStr ''gw1'', ''port'' \<mapsto> PStr ''abc''] =
       Inl (TypeMismatch ''port must be an integer'')
   \<and> id_gate [''id'' \<mapsto> PStr ''gw1'', ''dlr_expiry'' \<mapsto> PStr ''1d'']
   \<and> SMPPClientConfig_init sample_pdu_types
        [''id'' \<mapsto> PStr ''gw1'', ''dlr_expiry'' \<mapsto> PStr ''1d''] =
       Inl (TypeMismatch ''dlr_expiry must be an integer or float'')
   \<and> id_gate [''id'' \<mapsto> PStr ''gw1'', ''port'' \<mapsto> PBool True, ''username'' \<mapsto> PInt 5]
   \<and> (\<forall>m. SMPPClientConfig_init sample_pdu_types
             [''id'' \<mapsto> PStr ''gw1'', ''port'' \<mapsto> PBool True, ''username'' \<mapsto> PInt 5]
           \<noteq> Inl (TypeMismatch m))"
proof -
  let ?k1 = "[''id'' \<mapsto> PStr ''gw1'', ''host'' \<mapsto> PInt 5]"
  let ?k2 = "[''id'' \<mapsto> PStr ''gw1'', ''port'' \<mapsto> PStr ''abc'']"
  let ?k3 = "[''id'' \<mapsto> PStr ''gw1'', ''dlr_expiry'' \<mapsto> PStr ''1d'']"
  let ?k4 = "[''id'' \<mapsto> PStr ''gw1'', ''port'' \<mapsto> PBool True, ''username'' \<mapsto> PInt 5]"
  have g1: "id_gate ?k1" and g2: "id_gate ?k2" and g3: "id_gate ?k3" and g4: "id_gate ?k4"
    by (simp_all add: gate_defs)
  from type_gate_checked_fields [OF g1, where v = "PInt 5" and pdu = sample_pdu_types]
  have r1: "SMPPClientConfig_init sample_pdu_types ?k1 =
      Inl (TypeMismatch ''host must be a string'')"
    by simp
  from type_gate_checked_fields [OF g2, where v = "PStr ''abc''" and pdu = sample_pdu_types]
  have r2: "SMPPClientConfig_init sample_pdu_types ?k2 =
      Inl (TypeMismatch ''port must be an integer'')"
    by (simp add: gate_defs)
  from type_gate_checked_fields
         [OF g3, where v = "PStr ''1d''" and pdu = sample_pdu_types and i = 9]
  have r3: "SMPPClientConfig_init sample_pdu_types ?k3 =
      Inl (TypeMismatch ''dlr_expiry must be an integer or float'')"
    by (simp add: gate_defs)
  from type_gate_checked_fields [OF g4, where pdu = sample_pdu_types]
  have r4: "\<forall>m. SMPPClientConfig_init sample_pdu_types ?k4 \<noteq> Inl (TypeMismatch m)"
    by (simp add: gate_defs)
  from g1 g2 g3 g4 r1 r2 r3 r4 show ?thesis by blast
qed

section \<open>The domain checks\<close>




end
